theory Spec2Isabelle
  imports Complex_Main "HOL-Library.Code_Target_Numeral"
begin

section \<open>JavaScript numbers\<close>

text \<open>
  A JavaScript number is an IEEE 754 binary64 value. A finite one is modelled by the real
  number it denotes; negative zero is identified with zero (the program never divides by a
  variable and never prints a zero through a path that shows its sign).
\<close>

datatype number = NaN | PosInf | NegInf | Fin real

text \<open>
  The binary exponent of a positive real: \<open>bin_exp_up\<close> halves while the value is at
  least 2, \<open>bin_exp_dn\<close> doubles while it is below 1, at most 1022 times (below that the
  spacing of binary64 values no longer shrinks).
\<close>

function bin_exp_up :: "real \<Rightarrow> int" where
  "bin_exp_up a = (if 2 \<le> a then 1 + bin_exp_up (a / 2) else 0)"
  by pat_completeness auto
termination
proof (relation "measure (\<lambda>a. nat \<lfloor>a\<rfloor>)")
  fix a :: real
  assume a: "2 \<le> a"
  then have "2 \<le> \<lfloor>a\<rfloor>" by (simp add: le_floor_iff)
  moreover have "\<lfloor>a / 2\<rfloor> < \<lfloor>a\<rfloor>"
  proof -
    have "a < of_int \<lfloor>a\<rfloor> + 1" by (rule real_of_int_floor_add_one_gt)
    with \<open>2 \<le> \<lfloor>a\<rfloor>\<close> have "a / 2 < of_int \<lfloor>a\<rfloor>" by linarith
    then show ?thesis by (simp add: floor_less_iff)
  qed
  ultimately show "(a / 2, a) \<in> measure (\<lambda>a. nat \<lfloor>a\<rfloor>)" by simp
qed simp

declare bin_exp_up.simps [simp del]

fun bin_exp_dn :: "nat \<Rightarrow> real \<Rightarrow> int" where
  "bin_exp_dn 0 a = 0"
| "bin_exp_dn (Suc k) a = (if a < 1 then bin_exp_dn k (2 * a) - 1 else 0)"

definition bin_exp :: "real \<Rightarrow> int" where
  "bin_exp a = (if 1 \<le> a then bin_exp_up a else bin_exp_dn 1022 a)"

text \<open>Powers with an integer exponent, written out.\<close>

definition scale :: "real \<Rightarrow> int \<Rightarrow> real" where
  "scale b k = (if 0 \<le> k then b ^ nat k else 1 / b ^ nat (- k))"

definition round_half_even :: "real \<Rightarrow> int" where
  "round_half_even y =
     (let f = \<lfloor>y\<rfloor>; d = y - of_int f
      in if d < 1 / 2 then f else if 1 / 2 < d then f + 1 else if even f then f else f + 1)"

definition round_half_up :: "real \<Rightarrow> int" where
  "round_half_up y = \<lfloor>y + 1 / 2\<rfloor>"

text \<open>
  Rounding of a real to the nearest binary64 value, ties to even: 53 significant bits,
  least exponent -1022, overflow to an infinity.
\<close>

definition round_double :: "real \<Rightarrow> number" where
  "round_double x =
     (if x = 0 then Fin 0
      else let a = \<bar>x\<bar>;
               q = scale 2 (bin_exp a - 52);
               m = of_int (round_half_even (a / q)) * q
           in if 2 ^ 1024 \<le> m then (if 0 < x then PosInf else NegInf)
              else Fin (if 0 < x then m else - m))"

text \<open>\<open>a / b\<close> and \<open>a * b\<close> of finite operands, \<open>b\<close> not zero in the quotient.\<close>

definition fdiv :: "real \<Rightarrow> real \<Rightarrow> number" where
  "fdiv a b = round_double (a / b)"

fun fmul :: "number \<Rightarrow> number \<Rightarrow> number" where
  "fmul NaN _ = NaN"
| "fmul _ NaN = NaN"
| "fmul (Fin a) (Fin b) = round_double (a * b)"
| "fmul (Fin a) PosInf = (if a = 0 then NaN else if 0 < a then PosInf else NegInf)"
| "fmul (Fin a) NegInf = (if a = 0 then NaN else if 0 < a then NegInf else PosInf)"
| "fmul PosInf (Fin b) = (if b = 0 then NaN else if 0 < b then PosInf else NegInf)"
| "fmul NegInf (Fin b) = (if b = 0 then NaN else if 0 < b then NegInf else PosInf)"
| "fmul PosInf PosInf = PosInf"
| "fmul PosInf NegInf = NegInf"
| "fmul NegInf PosInf = NegInf"
| "fmul NegInf NegInf = PosInf"

fun isNaN :: "number \<Rightarrow> bool" where
  "isNaN NaN = True"
| "isNaN _ = False"

text \<open>\<open>x > 0\<close> on numbers: false when \<open>x\<close> is NaN.\<close>

fun gt_zero :: "number \<Rightarrow> bool" where
  "gt_zero (Fin a) = (0 < a)"
| "gt_zero PosInf = True"
| "gt_zero _ = False"

section \<open>Decimal digits\<close>

definition digit_char :: "nat \<Rightarrow> char" where
  "digit_char d = ''0123456789'' ! d"

function decimal :: "nat \<Rightarrow> string" where
  "decimal n = (if n < 10 then [digit_char n] else decimal (n div 10) @ [digit_char (n mod 10)])"
  by pat_completeness auto
termination
  by (relation "measure id") auto

declare decimal.simps [simp del]

text \<open>The decimal exponent of a positive real, as \<open>bin_exp\<close>.\<close>

function dec_exp_up :: "real \<Rightarrow> int" where
  "dec_exp_up a = (if 10 \<le> a then 1 + dec_exp_up (a / 10) else 0)"
  by pat_completeness auto
termination
proof (relation "measure (\<lambda>a. nat \<lfloor>a\<rfloor>)")
  fix a :: real
  assume a: "10 \<le> a"
  then have "10 \<le> \<lfloor>a\<rfloor>" by (simp add: le_floor_iff)
  moreover have "\<lfloor>a / 10\<rfloor> < \<lfloor>a\<rfloor>"
  proof -
    have "a < of_int \<lfloor>a\<rfloor> + 1" by (rule real_of_int_floor_add_one_gt)
    with \<open>10 \<le> \<lfloor>a\<rfloor>\<close> have "a / 10 < of_int \<lfloor>a\<rfloor>" by linarith
    then show ?thesis by (simp add: floor_less_iff)
  qed
  ultimately show "(a / 10, a) \<in> measure (\<lambda>a. nat \<lfloor>a\<rfloor>)" by simp
qed simp

declare dec_exp_up.simps [simp del]

fun dec_exp_dn :: "nat \<Rightarrow> real \<Rightarrow> int" where
  "dec_exp_dn 0 a = 0"
| "dec_exp_dn (Suc k) a = (if a < 1 then dec_exp_dn k (10 * a) - 1 else 0)"

definition dec_exp :: "real \<Rightarrow> int" where
  "dec_exp a = (if 1 \<le> a then dec_exp_up a else dec_exp_dn 324 a)"

section \<open>Number.prototype.toPrecision\<close>

text \<open>
  \<open>sig_digits a p\<close> is the pair \<open>(n, e)\<close> of ECMA-262 for a positive \<open>a\<close>: \<open>n\<close> has
  \<open>p\<close> decimal digits and \<open>n * 10 ^ (e - p + 1)\<close> is as close to \<open>a\<close> as possible, the
  larger \<open>n\<close> on a tie.
\<close>

definition sig_digits :: "real \<Rightarrow> nat \<Rightarrow> nat \<times> int" where
  "sig_digits a p =
     (let e = dec_exp a;
          n = nat (round_half_up (a / scale 10 (e - (int p - 1))))
      in if n = 10 ^ p then (10 ^ (p - 1), e + 1) else (n, e))"

text \<open>
  The notation of \<open>toPrecision\<close>, from the sign \<open>s\<close>, the digits \<open>m\<close>, the exponent \<open>e\<close> and
  the precision \<open>p\<close>: exponential when \<open>e < -6\<close> or \<open>e \<ge> p\<close>, fixed otherwise.
\<close>

definition layout :: "string \<Rightarrow> string \<Rightarrow> int \<Rightarrow> nat \<Rightarrow> string" where
  "layout s m e p =
     (if e < - 6 \<or> int p \<le> e then
        s @ (if p \<noteq> 1 then take 1 m @ ''.'' @ drop 1 m else m) @ ''e''
          @ (if 0 < e then ''+'' else ''-'') @ decimal (nat \<bar>e\<bar>)
      else if e = int p - 1 then s @ m
      else if 0 \<le> e then s @ take (nat e + 1) m @ ''.'' @ drop (nat e + 1) m
      else s @ ''0.'' @ replicate (nat (- (e + 1))) (CHR ''0'') @ m)"

text \<open>\<open>x.toPrecision(p)\<close> for a precision from 1 to 100 (the program passes 3).\<close>

definition toPrecision :: "number \<Rightarrow> nat \<Rightarrow> string" where
  "toPrecision x p =
     (case x of
        NaN \<Rightarrow> ''NaN''
      | PosInf \<Rightarrow> ''Infinity''
      | NegInf \<Rightarrow> ''-Infinity''
      | Fin r \<Rightarrow>
          (let s = (if r < 0 then ''-'' else '''');
               a = \<bar>r\<bar>
           in if a = 0 then layout s (replicate p (CHR ''0'')) 0 p
              else let ne = sig_digits a p
                   in layout s (decimal (fst ne)) (snd ne) p))"

section \<open>Formatter\<close>

record si_prefix =
  prefix :: string
  multiplier :: nat
  symbol :: string

definition SI_PREFIXES :: "si_prefix list" where
  "SI_PREFIXES =
     [\<lparr>prefix = '''', multiplier = 1, symbol = ''msat''\<rparr>,
      \<lparr>prefix = '''', multiplier = 1000, symbol = ''sat''\<rparr>,
      \<lparr>prefix = ''k'', multiplier = 1000000, symbol = ''ksat''\<rparr>,
      \<lparr>prefix = ''M'', multiplier = 1000000000, symbol = ''Msat''\<rparr>,
      \<lparr>prefix = ''G'', multiplier = 1000000000000, symbol = ''Gsat''\<rparr>,
      \<lparr>prefix = ''T'', multiplier = 1000000000000000, symbol = ''Tsat''\<rparr>]"

text \<open>
  The loop of \<open>formatAmount\<close>: \<open>prefix_loop msat k\<close> is the loop about to test index
  \<open>k - 1\<close>; it stops at the first index, going down, whose multiplier is at most \<open>msat\<close>,
  and leaves the default \<open>SI_PREFIXES[0]\<close> when it runs out.
\<close>

fun prefix_loop :: "nat \<Rightarrow> nat \<Rightarrow> si_prefix" where
  "prefix_loop msat 0 = SI_PREFIXES ! 0"
| "prefix_loop msat (Suc i) =
     (if multiplier (SI_PREFIXES ! i) \<le> msat then SI_PREFIXES ! i else prefix_loop msat i)"

definition formatAmount :: "nat \<Rightarrow> string" where
  "formatAmount msat =
     (let prefix = prefix_loop msat (length SI_PREFIXES);
          value = fdiv (real msat) (real (multiplier prefix));
          formatted = toPrecision value 3
      in formatted @ '' '' @ symbol prefix)"

section \<open>Denomination catalog\<close>

record denomination =
  value' :: nat
  display :: string
  power' :: nat

function gen_loop :: "nat \<Rightarrow> denomination list \<Rightarrow> denomination list" where
  "gen_loop i denominations =
     (if i \<le> 29
      then gen_loop (i + 1)
             (denominations @ [\<lparr>value' = 2 ^ i, display = formatAmount (2 ^ i), power' = i\<rparr>])
      else denominations)"
  by pat_completeness auto
termination
  by (relation "measure (\<lambda>(i, ds). 30 - i)") auto

declare gen_loop.simps [simp del]

definition generateDenominations :: "denomination list" where
  "generateDenominations = gen_loop 10 []"

section \<open>JavaScript values\<close>

text \<open>
  The values the program handles: the result of \<open>response.json()\<close> and what the global
  \<open>btcUsdRate\<close> may hold. An object is the list of its own properties, each key once.
\<close>

datatype jsval =
    JsUndefined
  | JsNull
  | JsBool bool
  | JsNumber number
  | JsString string
  | JsArray "jsval list"
  | JsObject "(string \<times> jsval) list"

datatype exn = TypeError | SyntaxError

text \<open>\<open>!v\<close> is \<open>\<not> truthy v\<close>.\<close>

fun truthy :: "jsval \<Rightarrow> bool" where
  "truthy JsUndefined = False"
| "truthy JsNull = False"
| "truthy (JsBool b) = b"
| "truthy (JsNumber NaN) = False"
| "truthy (JsNumber (Fin r)) = (r \<noteq> 0)"
| "truthy (JsNumber _) = True"
| "truthy (JsString s) = (s \<noteq> [])"
| "truthy (JsArray _) = True"
| "truthy (JsObject _) = True"

text \<open>
  \<open>v[k]\<close> for the keys the program reads (\<open>prices\<close>, \<open>BTC/USD\<close>, \<open>rate\<close>): a TypeError on
  \<open>undefined\<close> and \<open>null\<close>, the own property of an object, and \<open>undefined\<close> otherwise, since
  no prototype defines these keys.
\<close>

fun get_prop :: "jsval \<Rightarrow> string \<Rightarrow> exn + jsval" where
  "get_prop JsUndefined k = Inl TypeError"
| "get_prop JsNull k = Inl TypeError"
| "get_prop (JsObject kvs) k = Inr (case map_of kvs k of Some v \<Rightarrow> v | None \<Rightarrow> JsUndefined)"
| "get_prop _ k = Inr JsUndefined"

section \<open>parseFloat and ToNumber\<close>

text \<open>
  Strings are lists of 8-bit characters, read as code units below 256. The white space of
  ECMA-262 in that range is TAB, LF, VT, FF, CR, SP and NBSP.
\<close>

definition is_ws :: "char \<Rightarrow> bool" where
  "is_ws c = (of_char c \<in> {9, 10, 11, 12, 13, 32, 160 :: nat})"

definition is_digit :: "char \<Rightarrow> bool" where
  "is_digit c = (c \<in> set ''0123456789'')"

definition digit_val :: "char \<Rightarrow> nat" where
  "digit_val c = of_char c - 48"

definition digits_val :: "string \<Rightarrow> nat" where
  "digits_val ds = foldl (\<lambda>acc c. 10 * acc + digit_val c) 0 ds"

definition parse_sign :: "string \<Rightarrow> bool \<times> string" where
  "parse_sign t =
     (case t of
        [] \<Rightarrow> (False, t)
      | c # r \<Rightarrow> if c = CHR ''-'' then (True, r) else if c = CHR ''+'' then (False, r) else (False, t))"

text \<open>An ExponentPart at the head of \<open>t\<close>, or none: its value and what follows it.\<close>

definition parse_exponent :: "string \<Rightarrow> int \<times> string" where
  "parse_exponent t =
     (case t of
        [] \<Rightarrow> (0, t)
      | c # r \<Rightarrow>
          if c = CHR ''e'' \<or> c = CHR ''E'' then
            (let sg = parse_sign r;
                 ds = takeWhile is_digit (snd sg)
             in if ds = [] then (0, t)
                else (if fst sg then - int (digits_val ds) else int (digits_val ds),
                      dropWhile is_digit (snd sg)))
          else (0, t))"

text \<open>
  The longest prefix of \<open>t\<close> that is a StrDecimalLiteral of ECMA-262 (an optional sign, then
  \<open>Infinity\<close>, or digits with an optional fraction and exponent, or a fraction with an
  optional exponent): its number value and the rest of \<open>t\<close>; \<open>None\<close> when no prefix is one.
\<close>

definition parse_StrDecimalLiteral :: "string \<Rightarrow> (number \<times> string) option" where
  "parse_StrDecimalLiteral t =
     (let sg = parse_sign t; u = snd sg
      in if take 8 u = ''Infinity'' then Some (if fst sg then NegInf else PosInf, drop 8 u)
         else
           let ip = takeWhile is_digit u;
               r1 = dropWhile is_digit u;
               dot = (r1 \<noteq> [] \<and> hd r1 = CHR ''.'');
               fp = (if dot then takeWhile is_digit (tl r1) else []);
               r2 = (if dot then dropWhile is_digit (tl r1) else r1)
           in if ip = [] \<and> fp = [] then None
              else
                let ex = parse_exponent r2;
                    mv = real (digits_val (ip @ fp)) * scale 10 (fst ex - int (length fp))
                in Some (round_double (if fst sg then - mv else mv), snd ex))"

definition parseFloat :: "string \<Rightarrow> number" where
  "parseFloat s =
     (case parse_StrDecimalLiteral (dropWhile is_ws s) of
        None \<Rightarrow> NaN
      | Some (v, _) \<Rightarrow> v)"

text \<open>
  StringToNumber: the whole trimmed string is a StrDecimalLiteral, or a binary, octal or
  hexadecimal integer literal; the empty string is 0, anything else NaN.
\<close>

definition radix_digit :: "char \<Rightarrow> nat option" where
  "radix_digit c = map_of (zip ''0123456789abcdefABCDEF'' ([0..<16] @ [10..<16])) c"

definition radix_val :: "nat \<Rightarrow> string \<Rightarrow> number" where
  "radix_val b ds =
     (if ds \<noteq> [] \<and> list_all (\<lambda>c. case radix_digit c of None \<Rightarrow> False | Some d \<Rightarrow> d < b) ds
      then round_double (real (foldl (\<lambda>acc c. b * acc + the (radix_digit c)) 0 ds))
      else NaN)"

definition non_decimal :: "string \<Rightarrow> number" where
  "non_decimal t =
     (if take 2 t = ''0x'' \<or> take 2 t = ''0X'' then radix_val 16 (drop 2 t)
      else if take 2 t = ''0o'' \<or> take 2 t = ''0O'' then radix_val 8 (drop 2 t)
      else if take 2 t = ''0b'' \<or> take 2 t = ''0B'' then radix_val 2 (drop 2 t)
      else NaN)"

definition StringToNumber :: "string \<Rightarrow> number" where
  "StringToNumber s =
     (let t = rev (dropWhile is_ws (rev (dropWhile is_ws s)))
      in if t = [] then Fin 0
         else case parse_StrDecimalLiteral t of
                Some (v, []) \<Rightarrow> v
              | _ \<Rightarrow> non_decimal t)"

text \<open>
  ToString of an object built by \<open>JSON.parse\<close> throws exactly when the object has an own
  \<open>toString\<close> property (which is then not callable); of an array, when that of an element
  does.
\<close>

fun toString_throws :: "jsval \<Rightarrow> bool" where
  "toString_throws (JsObject kvs) = (''toString'' \<in> set (map fst kvs))"
| "toString_throws (JsArray xs) = list_ex toString_throws xs"
| "toString_throws _ = False"

text \<open>
  The number an array converts to, through its \<open>join\<close>: with two or more elements the
  string has a comma and is not numeric; with one it is that element as a string.
\<close>

fun elem_number :: "jsval \<Rightarrow> number" and array_number :: "jsval list \<Rightarrow> number" where
  "elem_number JsUndefined = Fin 0"
| "elem_number JsNull = Fin 0"
| "elem_number (JsBool b) = NaN"
| "elem_number (JsNumber x) = x"
| "elem_number (JsString s) = StringToNumber s"
| "elem_number (JsArray xs) = array_number xs"
| "elem_number (JsObject kvs) = NaN"
| "array_number [] = Fin 0"
| "array_number [x] = elem_number x"
| "array_number (x # y # zs) = NaN"

fun ToNumber :: "jsval \<Rightarrow> exn + number" where
  "ToNumber JsUndefined = Inr NaN"
| "ToNumber JsNull = Inr (Fin 0)"
| "ToNumber (JsBool b) = Inr (Fin (if b then 1 else 0))"
| "ToNumber (JsNumber x) = Inr x"
| "ToNumber (JsString s) = Inr (StringToNumber s)"
| "ToNumber (JsArray xs) =
     (if toString_throws (JsArray xs) then Inl TypeError else Inr (array_number xs))"
| "ToNumber (JsObject kvs) =
     (if toString_throws (JsObject kvs) then Inl TypeError else Inr NaN)"

section \<open>Page state\<close>

text \<open>
  The page state: the three globals of the script, and the properties it writes for the
  total, the count, the export box, the copy button and the toast. The set
  \<open>selectedDenominations\<close> is the list of its members in insertion order, which is what
  \<open>Array.from\<close> yields. Denomination values are natural numbers; sums and their decimal
  rendering are exact, as they are in the script below \<open>2 ^ 53\<close>.

  Not tracked: the class list of the clicked button, the QR preview of \<open>updateQRCode\<close>,
  the text of the USD line and the text written into the price input, none of which the
  script reads back; console output; the timer that hides the toast. The elements that the
  script dereferences without a test are taken to exist.
\<close>

record state =
  selectedDenominations :: "nat list"
  totalAmount :: nat
  btcUsdRate :: jsval
  totalAmount_textContent :: string
  selectedCount_textContent :: string
  msatValues_value :: string
  msatValues_placeholder :: string
  copyButton_disabled :: bool
  toast :: "(string \<times> string) option"

definition MAX_SELECTIONS :: nat where
  "MAX_SELECTIONS = 4"

section \<open>Fiat conversion\<close>

definition msatToUsd :: "state \<Rightarrow> int \<Rightarrow> exn + jsval" where
  "msatToUsd s msat =
     (if \<not> truthy (btcUsdRate s) then Inr JsNull
      else
        let btc = fdiv (real_of_int msat) 100000000000
        in case ToNumber (btcUsdRate s) of
             Inl e \<Rightarrow> Inl e
           | Inr rate \<Rightarrow> Inr (JsNumber (fmul btc rate)))"

section \<open>Selection manager\<close>

fun join :: "string \<Rightarrow> string list \<Rightarrow> string" where
  "join sep [] = []"
| "join sep [x] = x"
| "join sep (x # y # zs) = x @ sep @ join sep (y # zs)"

definition showToast :: "string \<Rightarrow> string \<Rightarrow> state \<Rightarrow> state" where
  "showToast message type s = s\<lparr>toast := Some (message, type)\<rparr>"

text \<open>
  \<open>updateTotal\<close> returns the exception it ends with, if any, and the state it leaves. The
  only statement that can throw is the product in \<open>msatToUsd\<close>, when the stored rate is an
  object that has no primitive value; the export box is then not reached.
\<close>

definition updateTotal :: "state \<Rightarrow> exn option \<times> state" where
  "updateTotal s =
     (let sel = selectedDenominations s;
          total = foldl (+) 0 sel;
          s1 = s\<lparr>totalAmount := total,
                 totalAmount_textContent := formatAmount total,
                 selectedCount_textContent := decimal (length sel)\<rparr>;
          usd = (if 0 < length sel \<and> truthy (btcUsdRate s1)
                 then msatToUsd s1 (int total) else Inr JsNull)
      in case usd of
           Inl e \<Rightarrow> (Some e, s1)
         | Inr _ \<Rightarrow>
             (None,
              if length sel = 0
              then s1\<lparr>msatValues_value := '''',
                      msatValues_placeholder := ''No denominations selected'',
                      copyButton_disabled := True\<rparr>
              else s1\<lparr>msatValues_value := join '','' (map decimal (sort sel)),
                      msatValues_placeholder := '''',
                      copyButton_disabled := False\<rparr>))"

definition toggleDenomination :: "nat \<Rightarrow> state \<Rightarrow> exn option \<times> state" where
  "toggleDenomination v s =
     (if v \<in> set (selectedDenominations s)
      then updateTotal (s\<lparr>selectedDenominations := removeAll v (selectedDenominations s)\<rparr>)
      else if MAX_SELECTIONS \<le> length (selectedDenominations s)
      then (None,
            showToast (''You can only select up to '' @ decimal MAX_SELECTIONS @ '' denominations.'')
              ''warning'' s)
      else updateTotal (s\<lparr>selectedDenominations := selectedDenominations s @ [v]\<rparr>))"

section \<open>Rate provider\<close>

text \<open>
  What the request of \<open>fetchBtcPrice\<close> comes to: \<open>fetch\<close> rejects, \<open>response.json()\<close>
  rejects, or it resolves with the parsed body. The function changes the state only after
  the last \<open>await\<close>, so a run of it is one step at that moment.
\<close>

datatype fetch_outcome = FetchRejected | JsonRejected | JsonResolved jsval

text \<open>
  The \<open>try\<close> block. \<open>priceInput\<close> is the element with id \<open>btcPrice\<close>: \<open>None\<close> when the page
  has none, else its current value. \<open>toFixed\<close> exists on numbers only.
\<close>

definition fetch_try :: "fetch_outcome \<Rightarrow> string option \<Rightarrow> state \<Rightarrow> (exn + jsval) \<times> state" where
  "fetch_try outcome priceInput s =
     (case outcome of
        FetchRejected \<Rightarrow> (Inl TypeError, s)
      | JsonRejected \<Rightarrow> (Inl SyntaxError, s)
      | JsonResolved data \<Rightarrow>
          (case get_prop data ''prices'' of
             Inl e \<Rightarrow> (Inl e, s)
           | Inr prices \<Rightarrow>
               (case get_prop prices ''BTC/USD'' of
                  Inl e \<Rightarrow> (Inl e, s)
                | Inr pair \<Rightarrow>
                    (case get_prop pair ''rate'' of
                       Inl e \<Rightarrow> (Inl e, s)
                     | Inr rate \<Rightarrow>
                         (let s1 = s\<lparr>btcUsdRate := rate\<rparr>
                          in case priceInput of
                               None \<Rightarrow> (Inr rate, s1)
                             | Some _ \<Rightarrow>
                                 (case rate of
                                    JsNumber x \<Rightarrow> (Inr rate, s1)
                                  | _ \<Rightarrow> (Inl TypeError, s1)))))))"

text \<open>The \<open>catch\<close> block turns every exception into the result \<open>null\<close>.\<close>

definition fetchBtcPrice :: "fetch_outcome \<Rightarrow> string option \<Rightarrow> state \<Rightarrow> (exn + jsval) \<times> state" where
  "fetchBtcPrice outcome priceInput s =
     (case fetch_try outcome priceInput s of
        (Inl e, s') \<Rightarrow> (Inr JsNull, s')
      | (Inr v, s') \<Rightarrow> (Inr v, s'))"

text \<open>
  \<open>updateBtcPriceFromInput\<close> has no \<open>return\<close> statement: a call that completes has the
  value \<open>undefined\<close>.
\<close>

definition updateBtcPriceFromInput :: "string option \<Rightarrow> state \<Rightarrow> (exn + jsval) \<times> state" where
  "updateBtcPriceFromInput priceInput s =
     (case priceInput of
        None \<Rightarrow> (Inl TypeError, s)
      | Some text \<Rightarrow>
          (let newPrice = parseFloat text
           in if \<not> isNaN newPrice \<and> gt_zero newPrice
              then (case updateTotal (s\<lparr>btcUsdRate := JsNumber newPrice\<rparr>) of
                      (Some e, s') \<Rightarrow> (Inl e, s')
                    | (None, s') \<Rightarrow> (Inr JsUndefined, s'))
              else (Inr JsUndefined, s)))"

section \<open>Runs and reference states\<close>

text \<open>A run of clicks on denomination buttons, one \<open>toggleDenomination\<close> per click.\<close>

fun toggles :: "nat list \<Rightarrow> state \<Rightarrow> state" where
  "toggles [] s = s"
| "toggles (v # vs) s = toggles vs (snd (toggleDenomination v s))"

text \<open>The guard under which \<open>toggleDenomination\<close> shows the warning and returns early.\<close>

definition rejects :: "nat \<Rightarrow> state \<Rightarrow> bool" where
  "rejects v s =
     (v \<notin> set (selectedDenominations s) \<and> MAX_SELECTIONS \<le> length (selectedDenominations s))"

text \<open>The globals as the script initialises them, with nothing written to the page yet.\<close>

definition initial_state :: state where
  "initial_state =
     \<lparr>selectedDenominations = [], totalAmount = 0, btcUsdRate = JsNull,
      totalAmount_textContent = '''', selectedCount_textContent = '''',
      msatValues_value = '''', msatValues_placeholder = '''',
      copyButton_disabled = False, toast = None\<rparr>"

text \<open>
  Two response bodies: \<open>{"prices":{"BTC/USD":{}}}\<close>, where the field \<open>rate\<close> is missing,
  and \<open>{"prices":{"BTC/USD":{"rate":-1}}}\<close>.
\<close>

definition body_without_rate :: jsval where
  "body_without_rate = JsObject [(''prices'', JsObject [(''BTC/USD'', JsObject [])])]"

definition body_negative_rate :: jsval where
  "body_negative_rate =
     JsObject [(''prices'', JsObject [(''BTC/USD'', JsObject [(''rate'', JsNumber (Fin (- 1)))])])]"


text \<open>
  The rate as the data model wants it: absent (\<open>null\<close>, the initial value, or \<open>undefined\<close>)
  or a number greater than 0.
\<close>

fun valid_rate :: "jsval \<Rightarrow> bool" where
  "valid_rate JsNull = True"
| "valid_rate JsUndefined = True"
| "valid_rate (JsNumber x) = gt_zero x"
| "valid_rate _ = False"

section \<open>Properties of the number model\<close>

lemma bin_exp_up_small: "a < 2 \<Longrightarrow> bin_exp_up a = 0"
  by (simp add: bin_exp_up.simps)

lemma bin_exp_up_step: "2 \<le> a \<Longrightarrow> bin_exp_up a = 1 + bin_exp_up (a / 2)"
  by (subst bin_exp_up.simps) simp


lemma bin_exp_45000: "bin_exp 45000 = 15"
  by (simp add: bin_exp_def bin_exp_up_small bin_exp_up_step)

lemma round_double_45000: "round_double 45000 = Fin 45000"
  by (simp add: round_double_def bin_exp_45000 scale_def round_half_even_def Let_def)





lemma dec_exp_up_small: "a < 10 \<Longrightarrow> dec_exp_up a = 0"
  by (simp add: dec_exp_up.simps)









section \<open>Properties of the formatter\<close>

lemma length_SI: "length SI_PREFIXES = Suc (Suc (Suc (Suc (Suc (Suc 0)))))"
  by (simp add: SI_PREFIXES_def)

lemma nth_SI:
  "SI_PREFIXES ! 0 = \<lparr>prefix = '''', multiplier = 1, symbol = ''msat''\<rparr>"
  "SI_PREFIXES ! Suc 0 = \<lparr>prefix = '''', multiplier = 1000, symbol = ''sat''\<rparr>"
  "SI_PREFIXES ! Suc (Suc 0) = \<lparr>prefix = ''k'', multiplier = 1000000, symbol = ''ksat''\<rparr>"
  "SI_PREFIXES ! Suc (Suc (Suc 0)) = \<lparr>prefix = ''M'', multiplier = 1000000000, symbol = ''Msat''\<rparr>"
  "SI_PREFIXES ! Suc (Suc (Suc (Suc 0))) = \<lparr>prefix = ''G'', multiplier = 1000000000000, symbol = ''Gsat''\<rparr>"
  "SI_PREFIXES ! Suc (Suc (Suc (Suc (Suc 0)))) = \<lparr>prefix = ''T'', multiplier = 1000000000000000, symbol = ''Tsat''\<rparr>"
  by (simp_all add: SI_PREFIXES_def)

lemma prefix_loop_unfold:
  "prefix_loop a (length SI_PREFIXES) =
     (if 1000000000000000 \<le> a then \<lparr>prefix = ''T'', multiplier = 1000000000000000, symbol = ''Tsat''\<rparr>
      else if 1000000000000 \<le> a then \<lparr>prefix = ''G'', multiplier = 1000000000000, symbol = ''Gsat''\<rparr>
      else if 1000000000 \<le> a then \<lparr>prefix = ''M'', multiplier = 1000000000, symbol = ''Msat''\<rparr>
      else if 1000000 \<le> a then \<lparr>prefix = ''k'', multiplier = 1000000, symbol = ''ksat''\<rparr>
      else if 1000 \<le> a then \<lparr>prefix = '''', multiplier = 1000, symbol = ''sat''\<rparr>
      else \<lparr>prefix = '''', multiplier = 1, symbol = ''msat''\<rparr>)"
  unfolding length_SI by (simp add: nth_SI)








lemma toPrecision_positive:
  "0 < r \<Longrightarrow> toPrecision (Fin r) p = layout [] (decimal (fst (sig_digits r p))) (snd (sig_digits r p)) p"
  by (simp add: toPrecision_def Let_def)

lemma decimal_102: "decimal 102 = ''102''"
  by (simp add: decimal.simps digit_char_def)

lemma fdiv_1024: "fdiv 1024 1000 = Fin (1152921504606847 / 1125899906842624)"
  by (simp add: fdiv_def round_double_def bin_exp_def bin_exp_up_small scale_def
      round_half_even_def Let_def)

lemma sig_digits_1024: "sig_digits (1152921504606847 / 1125899906842624) 3 = (102, 0)"
  by (simp add: sig_digits_def dec_exp_def dec_exp_up_small scale_def round_half_up_def Let_def)

lemma formatAmount_1024: "formatAmount 1024 = ''1.02 sat''"
  by (simp add: formatAmount_def prefix_loop_unfold fdiv_1024
      toPrecision_positive sig_digits_1024 decimal_102 layout_def)





section \<open>Properties of the catalog\<close>

lemma gen_loop_unfold:
  "i \<le> 30 \<Longrightarrow>
   gen_loop i ds =
     ds @ map (\<lambda>e. \<lparr>value' = 2 ^ e, display = formatAmount (2 ^ e), power' = e\<rparr>) [i..<30]"
proof (induction i ds rule: gen_loop.induct)
  case (1 i ds)
  show ?case
  proof (cases "i \<le> 29")
    case True
    then have "[i..<30] = i # [i + 1..<30]" by (simp add: upt_conv_Cons)
    with True "1.IH" show ?thesis by (subst gen_loop.simps) simp
  next
    case False
    with "1.prems" have "i = 30" by simp
    then show ?thesis by (subst gen_loop.simps) simp
  qed
qed

lemma pow2_strict: "sorted_wrt (<) (map (\<lambda>e. (2::nat) ^ e) [m..<n])"
  by (simp add: sorted_wrt_map sorted_wrt_iff_nth_less)

text \<open>
  Claim C5. The catalog has one entry for each exponent from 10 to 29, in this order: 20
  entries, the entry for \<open>e\<close> holding \<open>2 ^ e\<close> and the \<open>formatAmount\<close> rendering of that
  value, so that the values increase strictly.
\<close>

theorem generateDenominations_catalog:
  "generateDenominations =
     map (\<lambda>e. \<lparr>value' = 2 ^ e, display = formatAmount (2 ^ e), power' = e\<rparr>) [10..<30]
   \<and> length generateDenominations = 20
   \<and> map power' generateDenominations = [10..<30]
   \<and> map value' generateDenominations = map (\<lambda>e. 2 ^ e) [10..<30]
   \<and> sorted_wrt (<) (map value' generateDenominations)"
proof -
  have g: "generateDenominations =
     map (\<lambda>e. \<lparr>value' = 2 ^ e, display = formatAmount (2 ^ e), power' = e\<rparr>) [10..<30]"
    by (simp add: generateDenominations_def gen_loop_unfold)
  have v: "map value' generateDenominations = map (\<lambda>e. 2 ^ e) [10..<30]"
    unfolding g by (simp add: comp_def)
  have p: "map power' generateDenominations = [10..<30]"
    unfolding g by (simp add: comp_def)
  have l: "length generateDenominations = 20"
    unfolding g by simp
  have "sorted_wrt (<) (map value' generateDenominations)"
    unfolding v by (rule pow2_strict)
  with g v p l show ?thesis by blast
qed

theorem generateDenominations_catalog_witness:
  "length generateDenominations = 20
   \<and> generateDenominations ! 0 = \<lparr>value' = 1024, display = ''1.02 sat'', power' = 10\<rparr>
   \<and> value' (generateDenominations ! 19) = 536870912
   \<and> power' (generateDenominations ! 19) = 29"
proof -
  from generateDenominations_catalog
  have g: "generateDenominations =
     map (\<lambda>e. \<lparr>value' = 2 ^ e, display = formatAmount (2 ^ e), power' = e\<rparr>) [10..<30]"
    and l: "length generateDenominations = 20"
    by blast+
  have "generateDenominations ! 0 = \<lparr>value' = 1024, display = ''1.02 sat'', power' = 10\<rparr>"
    unfolding g by (simp add: formatAmount_1024)
  moreover have "value' (generateDenominations ! 19) = 536870912"
    and "power' (generateDenominations ! 19) = 29"
    unfolding g by simp_all
  ultimately show ?thesis using l by blast
qed

section \<open>Properties of the conversion\<close>



section \<open>Properties of the selection manager\<close>

lemma updateTotal_selection [simp]:
  "selectedDenominations (snd (updateTotal s)) = selectedDenominations s"
  by (simp add: updateTotal_def Let_def split: sum.split)

lemma updateTotal_rate [simp]:
  "btcUsdRate (snd (updateTotal s)) = btcUsdRate s"
  by (simp add: updateTotal_def Let_def split: sum.split)

lemma toggle_selection:
  "selectedDenominations (snd (toggleDenomination v s)) =
     (if v \<in> set (selectedDenominations s) then removeAll v (selectedDenominations s)
      else if MAX_SELECTIONS \<le> length (selectedDenominations s) then selectedDenominations s
      else selectedDenominations s @ [v])"
  by (simp add: toggleDenomination_def showToast_def)

lemma toggle_length:
  assumes le: "length (selectedDenominations s) \<le> MAX_SELECTIONS"
  shows "length (selectedDenominations (snd (toggleDenomination v s))) \<le> MAX_SELECTIONS"
proof -
  have "length (removeAll v (selectedDenominations s)) \<le> length (selectedDenominations s)"
    by (simp add: removeAll_filter_not_eq)
  with le have "length (removeAll v (selectedDenominations s)) \<le> MAX_SELECTIONS"
    by (rule_tac le_trans)
  with le show ?thesis by (simp add: toggle_selection)
qed

lemma toggles_length:
  "length (selectedDenominations s) \<le> MAX_SELECTIONS \<Longrightarrow>
   length (selectedDenominations (toggles vs s)) \<le> MAX_SELECTIONS"
  by (induction vs arbitrary: s) (simp_all add: toggle_length)

lemma toggle_distinct:
  "distinct (selectedDenominations s) \<Longrightarrow>
   distinct (selectedDenominations (snd (toggleDenomination v s)))"
  by (simp add: toggle_selection distinct_removeAll)

lemma toggles_distinct:
  "distinct (selectedDenominations s) \<Longrightarrow> distinct (selectedDenominations (toggles vs s))"
  by (induction vs arbitrary: s) (simp_all add: toggle_distinct)

lemma decimal_4: "decimal 4 = ''4''"
  by (simp add: decimal.simps digit_char_def)

text \<open>
  Claim C1. Starting from the empty selection, every run of toggles leaves a selection
  without repetition and with at most 4 members. In any state with 4 members, toggling a value that is not a member shows the
  warning toast and changes nothing else: the selection, the stored total and the export
  box are those of the state before the call.
\<close>

theorem toggle_limit:
  "(selectedDenominations s0 = [] \<longrightarrow>
      distinct (selectedDenominations (toggles vs s0))
      \<and> length (selectedDenominations (toggles vs s0)) \<le> 4)
   \<and> (v \<notin> set (selectedDenominations s) \<and> length (selectedDenominations s) = 4 \<longrightarrow>
        toggleDenomination v s =
          (None, s\<lparr>toast := Some (''You can only select up to 4 denominations.'', ''warning'')\<rparr>))"
proof (intro conjI impI)
  assume "selectedDenominations s0 = []"
  then have "distinct (selectedDenominations s0)" by simp
  then show "distinct (selectedDenominations (toggles vs s0))" by (rule toggles_distinct)
next
  assume "selectedDenominations s0 = []"
  then have "length (selectedDenominations s0) \<le> MAX_SELECTIONS" by simp
  then have "length (selectedDenominations (toggles vs s0)) \<le> MAX_SELECTIONS"
    by (rule toggles_length)
  then show "length (selectedDenominations (toggles vs s0)) \<le> 4"
    by (simp add: MAX_SELECTIONS_def)
next
  assume "v \<notin> set (selectedDenominations s) \<and> length (selectedDenominations s) = 4"
  then show "toggleDenomination v s =
          (None, s\<lparr>toast := Some (''You can only select up to 4 denominations.'', ''warning'')\<rparr>)"
    by (simp add: toggleDenomination_def showToast_def MAX_SELECTIONS_def decimal_4)
qed

theorem toggle_limit_witness:
  "selectedDenominations initial_state = []
   \<and> length (selectedDenominations (toggles [1024, 2048, 4096, 8192, 16384] initial_state)) \<le> 4
   \<and> selectedDenominations (toggles [1024, 2048, 4096, 8192, 16384] initial_state)
       = [1024, 2048, 4096, 8192]
   \<and> 16384 \<notin> set (selectedDenominations (toggles [1024, 2048, 4096, 8192] initial_state))
   \<and> length (selectedDenominations (toggles [1024, 2048, 4096, 8192] initial_state)) = 4
   \<and> toggleDenomination 16384 (toggles [1024, 2048, 4096, 8192] initial_state) =
       (None, (toggles [1024, 2048, 4096, 8192] initial_state)
                \<lparr>toast := Some (''You can only select up to 4 denominations.'', ''warning'')\<rparr>)"
proof -
  have sel: "selectedDenominations (toggles [1024, 2048, 4096, 8192] initial_state)
               = [1024, 2048, 4096, 8192]"
    by (simp add: toggle_selection initial_state_def MAX_SELECTIONS_def)
  have emp: "selectedDenominations initial_state = []"
    by (simp add: initial_state_def)
  have "toggles [1024, 2048, 4096, 8192, 16384] initial_state
          = snd (toggleDenomination 16384 (toggles [1024, 2048, 4096, 8192] initial_state))"
    by simp
  then have sel5: "selectedDenominations (toggles [1024, 2048, 4096, 8192, 16384] initial_state)
               = [1024, 2048, 4096, 8192]"
    by (simp only: toggle_selection sel) (simp add: MAX_SELECTIONS_def)
  show ?thesis
    using toggle_limit [of initial_state "[1024, 2048, 4096, 8192, 16384]" 16384
        "toggles [1024, 2048, 4096, 8192] initial_state"] sel sel5 emp
    by (simp del: toggles.simps)
qed

lemma foldl_plus_sum_list: "foldl (+) a xs = a + sum_list (xs :: nat list)"
  by (induction xs arbitrary: a) simp_all

lemma sum_same_members:
  assumes "distinct xs" "distinct ys" "set xs = set ys"
  shows "foldl (+) 0 xs = foldl (+) 0 (ys :: nat list)"
proof -
  have "sum_list xs = sum (\<lambda>x. x) (set xs)"
    using assms(1) sum_list_distinct_conv_sum_set [of xs "\<lambda>x. x"] by simp
  moreover have "sum_list ys = sum (\<lambda>x. x) (set ys)"
    using assms(2) sum_list_distinct_conv_sum_set [of ys "\<lambda>x. x"] by simp
  ultimately show ?thesis using assms(3) by (simp add: foldl_plus_sum_list)
qed

lemma sort_same_members:
  assumes "distinct xs" "distinct ys" "set xs = set ys"
  shows "sort xs = sort (ys :: nat list)"
  by (rule sorted_distinct_set_unique) (simp_all add: assms)

lemma toggle_twice_selection:
  assumes "\<not> rejects v s" "\<not> rejects v (snd (toggleDenomination v s))"
  shows "set (selectedDenominations (snd (toggleDenomination v (snd (toggleDenomination v s)))))
           = set (selectedDenominations s)"
  using assms by (auto simp add: rejects_def toggle_selection split: if_splits)

text \<open>
  Claim C8. When neither of two successive toggles of the same value is rejected by the
  limit, the selection has the members it had before. If the value was not a member, the
  list itself is unchanged; if it was, the value moves to the end of the insertion order,
  which neither the sorted export nor the total sees.
\<close>

theorem toggle_twice:
  "\<not> rejects v s \<Longrightarrow> \<not> rejects v (snd (toggleDenomination v s)) \<Longrightarrow>
     set (selectedDenominations (snd (toggleDenomination v (snd (toggleDenomination v s)))))
       = set (selectedDenominations s)
     \<and> (v \<notin> set (selectedDenominations s) \<longrightarrow>
          selectedDenominations (snd (toggleDenomination v (snd (toggleDenomination v s))))
            = selectedDenominations s)
     \<and> (distinct (selectedDenominations s) \<longrightarrow>
          distinct (selectedDenominations (snd (toggleDenomination v (snd (toggleDenomination v s)))))
          \<and> sort (selectedDenominations (snd (toggleDenomination v (snd (toggleDenomination v s)))))
              = sort (selectedDenominations s)
          \<and> foldl (+) 0 (selectedDenominations (snd (toggleDenomination v (snd (toggleDenomination v s)))))
              = foldl (+) 0 (selectedDenominations s))"
proof -
  assume a: "\<not> rejects v s" and b: "\<not> rejects v (snd (toggleDenomination v s))"
  let ?s2 = "snd (toggleDenomination v (snd (toggleDenomination v s)))"
  have mem: "set (selectedDenominations ?s2) = set (selectedDenominations s)"
    using a b by (rule toggle_twice_selection)
  have same: "v \<notin> set (selectedDenominations s) \<longrightarrow> selectedDenominations ?s2 = selectedDenominations s"
    using a by (simp add: rejects_def toggle_selection)
  have dist: "distinct (selectedDenominations s) \<longrightarrow> distinct (selectedDenominations ?s2)"
    by (simp add: toggle_distinct)
  from mem dist have srt: "distinct (selectedDenominations s) \<longrightarrow>
      sort (selectedDenominations ?s2) = sort (selectedDenominations s)"
    using sort_same_members [of "selectedDenominations ?s2" "selectedDenominations s"] by blast
  from mem dist have tot: "distinct (selectedDenominations s) \<longrightarrow>
      foldl (+) 0 (selectedDenominations ?s2) = foldl (+) 0 (selectedDenominations s)"
    using sum_same_members [of "selectedDenominations ?s2" "selectedDenominations s"] by blast
  from mem same dist srt tot show ?thesis by blast
qed

theorem toggle_twice_witness:
  "\<not> rejects 2048 (initial_state\<lparr>selectedDenominations := [1024, 2048, 4096]\<rparr>)
   \<and> \<not> rejects 2048 (snd (toggleDenomination 2048
           (initial_state\<lparr>selectedDenominations := [1024, 2048, 4096]\<rparr>)))
   \<and> distinct (selectedDenominations (initial_state\<lparr>selectedDenominations := [1024, 2048, 4096]\<rparr>))
   \<and> selectedDenominations (snd (toggleDenomination 2048 (snd (toggleDenomination 2048
           (initial_state\<lparr>selectedDenominations := [1024, 2048, 4096]\<rparr>)))))
       = [1024, 4096, 2048]
   \<and> set (selectedDenominations (snd (toggleDenomination 2048 (snd (toggleDenomination 2048
           (initial_state\<lparr>selectedDenominations := [1024, 2048, 4096]\<rparr>))))))
       = {1024, 2048, 4096}
   \<and> sort (selectedDenominations (snd (toggleDenomination 2048 (snd (toggleDenomination 2048
           (initial_state\<lparr>selectedDenominations := [1024, 2048, 4096]\<rparr>))))))
       = [1024, 2048, 4096]
   \<and> foldl (+) 0 (selectedDenominations (snd (toggleDenomination 2048 (snd (toggleDenomination 2048
           (initial_state\<lparr>selectedDenominations := [1024, 2048, 4096]\<rparr>))))))
       = 7168
   \<and> \<not> rejects 8192 (initial_state\<lparr>selectedDenominations := [1024, 2048, 4096]\<rparr>)
   \<and> \<not> rejects 8192 (snd (toggleDenomination 8192
           (initial_state\<lparr>selectedDenominations := [1024, 2048, 4096]\<rparr>)))
   \<and> 8192 \<notin> set (selectedDenominations (initial_state\<lparr>selectedDenominations := [1024, 2048, 4096]\<rparr>))
   \<and> selectedDenominations (snd (toggleDenomination 8192 (snd (toggleDenomination 8192
           (initial_state\<lparr>selectedDenominations := [1024, 2048, 4096]\<rparr>)))))
       = [1024, 2048, 4096]"
proof -
  let ?s = "initial_state\<lparr>selectedDenominations := [1024, 2048, 4096]\<rparr>"
  have sel: "selectedDenominations ?s = [1024, 2048, 4096]" by simp
  have r1: "\<not> rejects 2048 ?s"
    by (simp add: rejects_def)
  have s1: "selectedDenominations (snd (toggleDenomination 2048 ?s)) = [1024, 4096]"
    by (simp add: toggle_selection)
  have r2: "\<not> rejects 2048 (snd (toggleDenomination 2048 ?s))"
    by (simp add: rejects_def s1 MAX_SELECTIONS_def)
  have s2: "selectedDenominations (snd (toggleDenomination 2048 (snd (toggleDenomination 2048 ?s))))
              = [1024, 4096, 2048]"
    by (simp add: toggle_selection [of 2048 "snd (toggleDenomination 2048 ?s)"] s1 MAX_SELECTIONS_def)
  have q1: "\<not> rejects 8192 ?s"
    by (simp add: rejects_def MAX_SELECTIONS_def)
  have t1: "selectedDenominations (snd (toggleDenomination 8192 ?s)) = [1024, 2048, 4096, 8192]"
    by (simp add: toggle_selection MAX_SELECTIONS_def)
  have q2: "\<not> rejects 8192 (snd (toggleDenomination 8192 ?s))"
    by (simp add: rejects_def t1)
  have d: "distinct (selectedDenominations ?s)" by simp
  have n: "8192 \<notin> set (selectedDenominations ?s)" by simp
  from toggle_twice [OF r1 r2] d
  have a: "set (selectedDenominations (snd (toggleDenomination 2048 (snd (toggleDenomination 2048 ?s)))))
             = set (selectedDenominations ?s)"
    and b: "sort (selectedDenominations (snd (toggleDenomination 2048 (snd (toggleDenomination 2048 ?s)))))
             = sort (selectedDenominations ?s)"
    and c: "foldl (+) 0 (selectedDenominations (snd (toggleDenomination 2048 (snd (toggleDenomination 2048 ?s)))))
             = foldl (+) 0 (selectedDenominations ?s)"
    by blast+
  from toggle_twice [OF q1 q2] n
  have e: "selectedDenominations (snd (toggleDenomination 8192 (snd (toggleDenomination 8192 ?s))))
             = selectedDenominations ?s"
    by blast
  have a': "set (selectedDenominations ?s) = {1024, 2048, 4096}" by auto
  have b': "sort (selectedDenominations ?s) = [1024, 2048, 4096]" by simp
  have c': "foldl (+) 0 (selectedDenominations ?s) = 7168" by simp
  from a a' have A: "set (selectedDenominations (snd (toggleDenomination 2048 (snd (toggleDenomination 2048 ?s)))))
             = {1024, 2048, 4096}" by (rule trans)
  from b b' have B: "sort (selectedDenominations (snd (toggleDenomination 2048 (snd (toggleDenomination 2048 ?s)))))
             = [1024, 2048, 4096]" by (rule trans)
  from c c' have C: "foldl (+) 0 (selectedDenominations (snd (toggleDenomination 2048 (snd (toggleDenomination 2048 ?s)))))
             = 7168" by (rule trans)
  from e sel have E: "selectedDenominations (snd (toggleDenomination 8192 (snd (toggleDenomination 8192 ?s))))
             = [1024, 2048, 4096]" by (rule trans)
  from r1 r2 d s2 A B C q1 q2 n E show ?thesis by (intro conjI)
qed


lemma ToNumber_throws: "(\<exists>e. ToNumber v = Inl e) = toString_throws v"
  by (cases v) simp_all

lemma updateTotal_completes:
  "\<not> toString_throws (btcUsdRate s) \<Longrightarrow> fst (updateTotal s) = None"
proof -
  assume "\<not> toString_throws (btcUsdRate s)"
  then obtain r where "ToNumber (btcUsdRate s) = Inr r"
    using ToNumber_throws [of "btcUsdRate s"] by (cases "ToNumber (btcUsdRate s)") auto
  then show ?thesis
    by (simp add: updateTotal_def msatToUsd_def Let_def)
qed

lemma updateTotal_valid_rate:
  "valid_rate (btcUsdRate s) \<Longrightarrow> fst (updateTotal s) = None"
  by (rule updateTotal_completes) (cases "btcUsdRate s"; simp)

lemma updateTotal_total:
  "totalAmount (snd (updateTotal s)) = sum_list (selectedDenominations s)"
  by (simp add: updateTotal_def Let_def foldl_plus_sum_list split: sum.split)





section \<open>Properties of parseFloat\<close>








lemma parseFloat_45000: "parseFloat ''45000'' = Fin 45000"
  by (simp add: parseFloat_def parse_StrDecimalLiteral_def parse_sign_def parse_exponent_def
      is_ws_def is_digit_def digits_val_def digit_val_def scale_def round_double_45000)

lemma parseFloat_abc: "parseFloat ''abc'' = NaN"
  by (simp add: parseFloat_def parse_StrDecimalLiteral_def parse_sign_def parse_exponent_def
      is_ws_def is_digit_def)

section \<open>Properties of the rate provider\<close>

lemma updateTotal_number_rate:
  "btcUsdRate s = JsNumber x \<Longrightarrow> fst (updateTotal s) = None"
  by (rule updateTotal_completes) simp

lemma manual_rate_refused:
  "isNaN (parseFloat text) \<or> \<not> gt_zero (parseFloat text) \<Longrightarrow>
     updateBtcPriceFromInput (Some text) s = (Inr JsUndefined, s)"
  by (auto simp add: updateBtcPriceFromInput_def Let_def)

lemma manual_rate_accepted:
  assumes "\<not> isNaN (parseFloat text) \<and> gt_zero (parseFloat text)"
  shows "fst (updateBtcPriceFromInput (Some text) s) = Inr JsUndefined"
    and "btcUsdRate (snd (updateBtcPriceFromInput (Some text) s)) = JsNumber (parseFloat text)"
    and "selectedDenominations (snd (updateBtcPriceFromInput (Some text) s))
           = selectedDenominations s"
proof -
  let ?s' = "s\<lparr>btcUsdRate := JsNumber (parseFloat text)\<rparr>"
  have ok: "fst (updateTotal ?s') = None"
    by (rule updateTotal_number_rate [of _ "parseFloat text"]) simp
  then obtain t where t: "updateTotal ?s' = (None, t)"
    by (cases "updateTotal ?s'") simp
  have "btcUsdRate (snd (updateTotal ?s')) = JsNumber (parseFloat text)"
    and "selectedDenominations (snd (updateTotal ?s')) = selectedDenominations s"
    by simp_all
  with t have "btcUsdRate t = JsNumber (parseFloat text)"
    and "selectedDenominations t = selectedDenominations s"
    by simp_all
  with t assms show "fst (updateBtcPriceFromInput (Some text) s) = Inr JsUndefined"
    and "btcUsdRate (snd (updateBtcPriceFromInput (Some text) s)) = JsNumber (parseFloat text)"
    and "selectedDenominations (snd (updateBtcPriceFromInput (Some text) s))
           = selectedDenominations s"
    by (simp_all add: updateBtcPriceFromInput_def Let_def)
qed

text \<open>
  Claim C3, as the code has it. For every text of the price input, \<open>updateBtcPriceFromInput\<close>
  parses it with \<open>parseFloat\<close>. If the result is NaN or not greater than 0, the state, the
  rate included, is left as it was; otherwise the rate becomes the parsed number and the
  selection is untouched. In both cases the call returns \<open>undefined\<close>: there is no
  \<open>return\<close> statement, so no boolean reports success or failure.
\<close>

theorem manual_rate_update:
  "(isNaN (parseFloat text) \<or> \<not> gt_zero (parseFloat text) \<longrightarrow>
      updateBtcPriceFromInput (Some text) s = (Inr JsUndefined, s))
   \<and> (\<not> isNaN (parseFloat text) \<and> gt_zero (parseFloat text) \<longrightarrow>
        fst (updateBtcPriceFromInput (Some text) s) = Inr JsUndefined
        \<and> btcUsdRate (snd (updateBtcPriceFromInput (Some text) s)) = JsNumber (parseFloat text)
        \<and> selectedDenominations (snd (updateBtcPriceFromInput (Some text) s))
            = selectedDenominations s)"
  using manual_rate_refused [of "text" s] manual_rate_accepted [of "text" s] by blast

theorem manual_rate_update_witness:
  "updateBtcPriceFromInput (Some ''abc'') (initial_state\<lparr>btcUsdRate := JsNumber (Fin 45000)\<rparr>)
     = (Inr JsUndefined, initial_state\<lparr>btcUsdRate := JsNumber (Fin 45000)\<rparr>)
   \<and> fst (updateBtcPriceFromInput (Some ''45000'') initial_state) = Inr JsUndefined
   \<and> btcUsdRate (snd (updateBtcPriceFromInput (Some ''45000'') initial_state))
       = JsNumber (Fin 45000)"
  using manual_rate_update [of "''abc''" "initial_state\<lparr>btcUsdRate := JsNumber (Fin 45000)\<rparr>"]
    manual_rate_update [of "''45000''" initial_state]
  by (simp add: parseFloat_45000 parseFloat_abc)

text \<open>
  Claim C3 as stated fails: the text \<open>45000\<close> is accepted and replaces the rate, yet the
  call does not return \<open>true\<close>; the text \<open>abc\<close> is refused, yet the call does not return
  \<open>false\<close>.
\<close>

theorem manual_rate_returns_undefined:
  "btcUsdRate (snd (updateBtcPriceFromInput (Some ''45000'') initial_state)) = JsNumber (Fin 45000)
   \<and> fst (updateBtcPriceFromInput (Some ''45000'') initial_state) \<noteq> Inr (JsBool True)
   \<and> btcUsdRate (snd (updateBtcPriceFromInput (Some ''abc'') initial_state)) = btcUsdRate initial_state
   \<and> fst (updateBtcPriceFromInput (Some ''abc'') initial_state) \<noteq> Inr (JsBool False)"
  by (simp add: updateBtcPriceFromInput_def parseFloat_45000 parseFloat_abc updateTotal_def
      initial_state_def)

text \<open>The manual path keeps the rate valid: it stores a number only after the test \<open>> 0\<close>.\<close>

lemma manual_keeps_valid_rate:
  "valid_rate (btcUsdRate s) \<Longrightarrow>
     valid_rate (btcUsdRate (snd (updateBtcPriceFromInput priceInput s)))"
proof (cases priceInput)
  case None
  assume "valid_rate (btcUsdRate s)"
  with None show ?thesis by (simp add: updateBtcPriceFromInput_def)
next
  case (Some input)
  assume v: "valid_rate (btcUsdRate s)"
  show ?thesis
  proof (cases "\<not> isNaN (parseFloat input) \<and> gt_zero (parseFloat input)")
    case True
    with manual_rate_accepted(2) [OF True, of s] Some show ?thesis by simp
  next
    case False
    then have "updateBtcPriceFromInput (Some input) s = (Inr JsUndefined, s)"
      by (intro manual_rate_refused) simp
    with v Some show ?thesis by simp
  qed
qed

text \<open>
  What does hold of \<open>fetchBtcPrice\<close>: it never ends with an exception; when the request or
  the parsing of the body fails, or when \<open>prices\<close> or \<open>prices['BTC/USD']\<close> is missing, it
  returns \<open>null\<close> and leaves the state as it was; and a numeric \<open>rate\<close> is stored and
  returned.
\<close>

lemma fetch_never_throws: "\<exists>v. fst (fetchBtcPrice outcome priceInput s) = Inr v"
  by (cases "fetch_try outcome priceInput s"; cases "fst (fetch_try outcome priceInput s)")
     (auto simp add: fetchBtcPrice_def)

lemma fetch_failure_keeps_state:
  "outcome = FetchRejected \<or> outcome = JsonRejected \<Longrightarrow>
     fetchBtcPrice outcome priceInput s = (Inr JsNull, s)"
  by (auto simp add: fetchBtcPrice_def fetch_try_def)

lemma fetch_missing_prices_keeps_state:
  "get_prop data ''prices'' = Inr JsUndefined \<Longrightarrow>
     fetchBtcPrice (JsonResolved data) priceInput s = (Inr JsNull, s)"
  by (simp add: fetchBtcPrice_def fetch_try_def)

lemma fetch_missing_pair_keeps_state:
  "get_prop data ''prices'' = Inr prices \<Longrightarrow> get_prop prices ''BTC/USD'' = Inr JsUndefined \<Longrightarrow>
     fetchBtcPrice (JsonResolved data) priceInput s = (Inr JsNull, s)"
  by (simp add: fetchBtcPrice_def fetch_try_def)

lemma fetch_numeric_rate:
  "get_prop data ''prices'' = Inr prices \<Longrightarrow> get_prop prices ''BTC/USD'' = Inr pair \<Longrightarrow>
   get_prop pair ''rate'' = Inr (JsNumber x) \<Longrightarrow>
     fetchBtcPrice (JsonResolved data) priceInput s
       = (Inr (JsNumber x), s\<lparr>btcUsdRate := JsNumber x\<rparr>)"
  by (cases priceInput) (simp_all add: fetchBtcPrice_def fetch_try_def)

lemma fetch_without_rate:
  "fetchBtcPrice (JsonResolved body_without_rate) (Some input) s
     = (Inr JsNull, s\<lparr>btcUsdRate := JsUndefined\<rparr>)"
  by (simp add: fetchBtcPrice_def fetch_try_def body_without_rate_def)

text \<open>
  Claim C2, at a response whose body lacks the field \<open>rate\<close> at the expected path, in the
  state that the manual entry of 45000 leaves, with the price input present: the assignment
  to \<open>btcUsdRate\<close> runs before \<open>toFixed\<close> throws, so \<open>fetchBtcPrice\<close> returns \<open>null\<close> and the
  stored rate is no longer 45000 but \<open>undefined\<close>.
\<close>

theorem fetch_missing_rate_overwrites:
  "btcUsdRate (snd (updateBtcPriceFromInput (Some ''45000'') initial_state)) = JsNumber (Fin 45000)
   \<and> fetchBtcPrice (JsonResolved body_without_rate) (Some ''45000'')
         (snd (updateBtcPriceFromInput (Some ''45000'') initial_state))
       = (Inr JsNull,
          (snd (updateBtcPriceFromInput (Some ''45000'') initial_state))
            \<lparr>btcUsdRate := JsUndefined\<rparr>)
   \<and> btcUsdRate (snd (fetchBtcPrice (JsonResolved body_without_rate) (Some ''45000'')
         (snd (updateBtcPriceFromInput (Some ''45000'') initial_state)))) = JsUndefined"
proof -
  have "\<not> isNaN (parseFloat ''45000'') \<and> gt_zero (parseFloat ''45000'')"
    by (simp add: parseFloat_45000)
  from manual_rate_accepted(2) [OF this, of initial_state]
  have "btcUsdRate (snd (updateBtcPriceFromInput (Some ''45000'') initial_state))
          = JsNumber (Fin 45000)"
    by (simp add: parseFloat_45000)
  then show ?thesis by (simp add: fetch_without_rate)
qed

text \<open>
  Claim C4, at a response that carries the rate -1, from the initial state: \<open>fetchBtcPrice\<close>
  stores -1 and returns it; the rate was valid before the call and is neither absent nor
  positive after it.
\<close>

theorem fetch_stores_negative_rate:
  "fetchBtcPrice (JsonResolved body_negative_rate) (Some '''') initial_state
     = (Inr (JsNumber (Fin (- 1))), initial_state\<lparr>btcUsdRate := JsNumber (Fin (- 1))\<rparr>)
   \<and> valid_rate (btcUsdRate initial_state)
   \<and> \<not> valid_rate (btcUsdRate
          (snd (fetchBtcPrice (JsonResolved body_negative_rate) (Some '''') initial_state)))"
  by (simp add: fetchBtcPrice_def fetch_try_def body_negative_rate_def initial_state_def)



end
